theory Spec2Isabelle
  imports Complex_Main "HOL-Library.List_Lexorder" "HOL-Library.Char_ord" "HOL-Library.Multiset" "HOL-Library.Word"
begin

section \<open>The BME280 climate monitor: values, errors and readings\<close>

text \<open>
  The program is a single Python module: a sensor wrapper (\<open>ThermalSensor\<close>), an SQLite
  table of measurements (\<open>SimpleDatabase\<close>) and a monitor (\<open>SensorMonitor\<close>) that owns
  both, serves a small web API and runs a background thread.

  Conventions of the embedding:
  \<^item> Python floats are modelled by \<open>real\<close>: \<open>+\<close> is exact addition and \<open>round(x, 2)\<close> is
    rounding of the exact value to two decimals, ties to even.
  \<^item> Values that come from a YAML file or go into a JSON answer are \<open>pyval\<close>; a Python
    \<open>dict\<close> with string keys is an association list.
  \<^item> Every exception is a value of \<open>error\<close>; a function that may raise returns
    \<open>error + 'a\<close>, a function that returns \<open>None\<close> on failure returns \<open>'a option\<close>.
  \<^item> The clock, the random generator, the I2C device, the file system and the SQLite
    engine are the environment: what a call to them returned is a parameter of the
    function that makes the call.
  \<^item> Log output is not part of the modelled state.
\<close>

datatype pyval =
    PNone
  | PBool bool
  | PInt int
  | PFloat real
  | PStr string
  | PList "pyval list"
  | PDict "(string \<times> pyval) list"

datatype error =
    KeyError
  | TypeError
  | ValueError
  | ZeroDivisionError
  | OverflowError
  | AttributeError
  | ImportError
  | DeviceError
  | DatabaseError

text \<open>\<open>d[k]\<close>: a missing key raises \<open>KeyError\<close>; subscripting a value that is not a
  dictionary with a string raises \<open>TypeError\<close>.\<close>

fun getitem :: "pyval \<Rightarrow> string \<Rightarrow> error + pyval" where
  "getitem (PDict kvs) k = (case map_of kvs k of None \<Rightarrow> Inl KeyError | Some v \<Rightarrow> Inr v)"
| "getitem v k = Inl TypeError"

text \<open>\<open>d.get(k, default)\<close> on a dictionary.\<close>

definition dict_get :: "(string \<times> pyval) list \<Rightarrow> string \<Rightarrow> pyval \<Rightarrow> pyval" where
  "dict_get kvs k dflt = (case map_of kvs k of None \<Rightarrow> dflt | Some v \<Rightarrow> v)"

text \<open>\<open>round(x, 2)\<close> on a float: the nearest multiple of 0.01, a tie going to the even
  neighbour.\<close>

definition py_round2 :: "real \<Rightarrow> real" where
  "py_round2 x =
     (let y = x * 100; f = \<lfloor>y\<rfloor>; d = y - of_int f
      in of_int (if d < 1 / 2 then f
                 else if 1 / 2 < d then f + 1
                 else if even f then f else f + 1) / 100)"

text \<open>A \<open>datetime\<close> is represented by the two observations the program makes of it:
  \<open>.hour\<close> and \<open>.isoformat()\<close>.\<close>

record datetime =
  dt_hour :: nat
  dt_iso :: string

record SensorReading =
  timestamp :: datetime
  temperature :: real
  humidity :: real
  pressure :: real
  altitude :: "real option"

text \<open>\<open>SensorReading.to_dict\<close>. The altitude entry is guarded by the truthiness of
  \<open>self.altitude\<close>: \<open>None\<close> and \<open>0.0\<close> are both falsy.\<close>

definition to_dict :: "SensorReading \<Rightarrow> pyval" where
  "to_dict r = PDict
     [(''timestamp'', PStr (dt_iso (timestamp r))),
      (''temperature'', PFloat (py_round2 (temperature r))),
      (''humidity'', PFloat (py_round2 (humidity r))),
      (''pressure'', PFloat (py_round2 (pressure r))),
      (''altitude'', (case altitude r of
                        None \<Rightarrow> PNone
                      | Some a \<Rightarrow> if a = 0 then PNone else PFloat (py_round2 a)))]"

section \<open>The sensor: \<open>ThermalSensor\<close>\<close>

text \<open>The driver object held in \<open>self.sensor\<close> once the BME280 has been opened.\<close>

record bme280 =
  dev_address :: pyval
  sea_level_pressure :: pyval

text \<open>What the platform does while the sensor is opened: the module-level flag
  \<open>BME280_AVAILABLE\<close>, whether \<open>board.I2C()\<close> returns and whether the driver's constructor
  \<open>Adafruit_BME280_I2C\<close> returns (otherwise they raise).\<close>

record hw_env =
  BME280_AVAILABLE :: bool
  i2c_ok :: bool
  device_ok :: bool

text \<open>The attributes of a \<open>ThermalSensor\<close>. The three offsets are assigned only inside
  \<open>_init_sensor\<close>; \<open>None\<close> stands for an attribute that was never assigned.\<close>

record ThermalSensor =
  sensor_config :: pyval
  i2c_bus :: pyval
  i2c_address :: pyval
  sensor :: "bme280 option"
  temp_offset :: "pyval option"
  hum_offset :: "pyval option"
  pres_offset :: "pyval option"

text \<open>\<open>hex(x)\<close> accepts integers (and booleans) and raises \<open>TypeError\<close> otherwise.\<close>

fun hex_ok :: "pyval \<Rightarrow> bool" where
  "hex_ok (PInt i) = True"
| "hex_ok (PBool b) = True"
| "hex_ok v = False"

text \<open>\<open>ThermalSensor._init_sensor\<close>. Every exception raised in the body ends in the handler,
  which sets \<open>self.sensor = None\<close>; attributes assigned before the exception keep their
  values. The last statement of the body formats \<open>hex(self.i2c_address)\<close>.\<close>

definition init_sensor :: "hw_env \<Rightarrow> ThermalSensor \<Rightarrow> ThermalSensor" where
  "init_sensor hw s =
     (if \<not> BME280_AVAILABLE hw then s\<lparr>sensor := None\<rparr>
      else if \<not> i2c_ok hw then s\<lparr>sensor := None\<rparr>
      else if \<not> device_ok hw then s\<lparr>sensor := None\<rparr>
      else (case sensor_config s of
              PDict kvs \<Rightarrow>
                (let dev = \<lparr>dev_address = i2c_address s,
                            sea_level_pressure =
                              dict_get kvs ''sea_level_pressure'' (PFloat (101325 / 100))\<rparr>;
                     s' = s\<lparr>temp_offset := Some (dict_get kvs ''temperature_offset'' (PFloat 0)),
                            hum_offset := Some (dict_get kvs ''humidity_offset'' (PFloat 0)),
                            pres_offset := Some (dict_get kvs ''pressure_offset'' (PFloat 0))\<rparr>
                 in if hex_ok (i2c_address s) then s'\<lparr>sensor := Some dev\<rparr>
                    else s'\<lparr>sensor := None\<rparr>)
            | _ \<Rightarrow> s\<lparr>sensor := None\<rparr>))"

text \<open>\<open>ThermalSensor.__init__\<close>: the three subscripts are outside any \<open>try\<close>.\<close>

definition ThermalSensor_init :: "pyval \<Rightarrow> hw_env \<Rightarrow> error + ThermalSensor" where
  "ThermalSensor_init cfg hw =
     (case getitem cfg ''sensor'' of
        Inl e \<Rightarrow> Inl e
      | Inr c \<Rightarrow>
        (case getitem c ''i2c_bus'' of
           Inl e \<Rightarrow> Inl e
         | Inr bus \<Rightarrow>
           (case getitem c ''i2c_address'' of
              Inl e \<Rightarrow> Inl e
            | Inr addr \<Rightarrow>
                Inr (init_sensor hw
                  \<lparr>sensor_config = c, i2c_bus = bus, i2c_address = addr, sensor = None,
                   temp_offset = None, hum_offset = None, pres_offset = None\<rparr>))))"

text \<open>One round of property reads on the device: \<open>None\<close> where the access raises.\<close>

record bme280_sample =
  raw_temperature :: "real option"
  raw_humidity :: "real option"
  raw_pressure :: "real option"
  raw_altitude :: "real option"

text \<open>What one call of \<open>read\<close> gets from outside: the results of the first and second
  \<open>datetime.now()\<close>, the device's answers, and the four draws of \<open>random.uniform\<close> in the
  order the mock makes them.\<close>

record read_env =
  clock1 :: datetime
  clock2 :: datetime
  sample :: bme280_sample
  u_temp :: real
  u_hum :: real
  u_pres :: real
  u_alt :: real

text \<open>The number a value stands for in float arithmetic, if it is one.\<close>

fun as_number :: "pyval \<Rightarrow> real option" where
  "as_number (PFloat f) = Some f"
| "as_number (PInt i) = Some (of_int i)"
| "as_number (PBool b) = Some (if b then 1 else 0)"
| "as_number v = None"

text \<open>\<open>x + offset\<close> for a float \<open>x\<close> and an attribute that may be unset or not a number.\<close>

fun add_offset :: "real \<Rightarrow> pyval option \<Rightarrow> error + real" where
  "add_offset x None = Inl AttributeError"
| "add_offset x (Some v) =
     (case as_number v of None \<Rightarrow> Inl TypeError | Some off \<Rightarrow> Inr (x + off))"

text \<open>A property read of the device.\<close>

definition device_read :: "real option \<Rightarrow> error + real" where
  "device_read v = (case v of None \<Rightarrow> Inl DeviceError | Some x \<Rightarrow> Inr x)"

text \<open>\<open>ThermalSensor._read_mock\<close>.\<close>

definition read_mock :: "read_env \<Rightarrow> SensorReading" where
  "read_mock env =
     (let hour = dt_hour (clock1 env);
          base_temp = 22;
          temp_variation =
            (if 2 \<le> hour \<and> hour \<le> 6 then - 3
             else if 12 \<le> hour \<and> hour \<le> 16 then 3
             else 0);
          temperature' = base_temp + temp_variation + u_temp env;
          humidity' = 45 + u_hum env;
          pressure' = 101325 / 100 + u_pres env
      in \<lparr>timestamp = clock2 env,
          temperature = py_round2 temperature',
          humidity = py_round2 humidity',
          pressure = py_round2 pressure',
          altitude = Some (100 + u_alt env)\<rparr>)"

text \<open>The body of the \<open>try\<close> in \<open>ThermalSensor.read\<close>, statement by statement.\<close>

definition read_device :: "ThermalSensor \<Rightarrow> read_env \<Rightarrow> error + SensorReading" where
  "read_device s env =
     (case device_read (raw_temperature (sample env)) of Inl e \<Rightarrow> Inl e | Inr t0 \<Rightarrow>
      case add_offset t0 (temp_offset s) of Inl e \<Rightarrow> Inl e | Inr t \<Rightarrow>
      case device_read (raw_humidity (sample env)) of Inl e \<Rightarrow> Inl e | Inr h0 \<Rightarrow>
      case add_offset h0 (hum_offset s) of Inl e \<Rightarrow> Inl e | Inr h \<Rightarrow>
      case device_read (raw_pressure (sample env)) of Inl e \<Rightarrow> Inl e | Inr p0 \<Rightarrow>
      case add_offset p0 (pres_offset s) of Inl e \<Rightarrow> Inl e | Inr p \<Rightarrow>
      case device_read (raw_altitude (sample env)) of Inl e \<Rightarrow> Inl e | Inr a \<Rightarrow>
        Inr \<lparr>timestamp = clock1 env, temperature = t, humidity = h, pressure = p,
             altitude = Some a\<rparr>)"

text \<open>\<open>ThermalSensor.read\<close>: the mock when there is no driver object, otherwise the device
  read with every exception turned into \<open>None\<close>.\<close>

definition read :: "ThermalSensor \<Rightarrow> read_env \<Rightarrow> SensorReading option" where
  "read s env =
     (case sensor s of
        None \<Rightarrow> Some (read_mock env)
      | Some dev \<Rightarrow> (case read_device s env of Inl e \<Rightarrow> None | Inr r \<Rightarrow> Some r))"

text \<open>\<open>ThermalSensor.is_connected\<close>; \<open>probe\<close> is the outcome of the one access to
  \<open>self.sensor.temperature\<close>.\<close>

definition is_connected :: "ThermalSensor \<Rightarrow> real option \<Rightarrow> bool" where
  "is_connected s probe =
     (case sensor s of
        None \<Rightarrow> False
      | Some dev \<Rightarrow> (case probe of None \<Rightarrow> False | Some t \<Rightarrow> True))"

section \<open>The store: \<open>SimpleDatabase\<close>\<close>

text \<open>
  The table \<open>measurements\<close> is the list of its rows in insertion order. The column
  \<open>timestamp\<close> holds the ISO-8601 text that \<open>save_reading\<close> writes, and SQLite compares
  text byte by byte, which is the lexicographic order on \<open>string\<close>.

  Each operation opens its own connection; \<open>ok\<close> tells whether SQLite carries the
  operation out or raises. A failed statement leaves the table as it was.
\<close>

record row =
  row_id :: int
  row_timestamp :: string
  row_temperature :: real
  row_humidity :: real
  row_pressure :: real

text \<open>\<open>INTEGER PRIMARY KEY\<close>: a new row gets the largest id in the table plus one, and 1
  in an empty table.\<close>

definition next_id :: "row list \<Rightarrow> int" where
  "next_id rows = fold max (map row_id rows) 0 + 1"

text \<open>\<open>ORDER BY timestamp ASC\<close> and \<open>ORDER BY timestamp DESC\<close>. SQL leaves the order of
  rows with equal timestamps open; both sorts here keep them in insertion order.\<close>

definition order_by_timestamp_asc :: "row list \<Rightarrow> row list" where
  "order_by_timestamp_asc rows = sort_key row_timestamp rows"

definition order_by_timestamp_desc :: "row list \<Rightarrow> row list" where
  "order_by_timestamp_desc rows = rev (sort_key row_timestamp (rev rows))"

text \<open>A Python \<open>int\<close> bound to a parameter of a statement becomes a signed 64-bit
  integer; \<open>sqlite3\<close> raises \<open>OverflowError\<close> for an \<open>int\<close> outside that range, before
  the statement runs.\<close>

definition bind_int :: "int \<Rightarrow> error + 64 word" where
  "bind_int i =
     (if - (2 ^ 63) \<le> i \<and> i < 2 ^ 63 then Inr (word_of_int i) else Inl OverflowError)"

text \<open>\<open>LIMIT n\<close> on a signed 64-bit \<open>n\<close>: a negative \<open>n\<close> means no limit in SQLite.\<close>

definition sql_limit :: "64 word \<Rightarrow> 'a list \<Rightarrow> 'a list" where
  "sql_limit n xs = (if sint n < 0 then xs else take (nat (sint n)) xs)"

text \<open>\<open>SimpleDatabase.init_db\<close>: \<open>CREATE TABLE IF NOT EXISTS\<close> keeps the rows of an
  existing file.\<close>

definition init_db :: "bool \<Rightarrow> row list \<Rightarrow> error + row list" where
  "init_db ok rows = (if ok then Inr rows else Inl DatabaseError)"

text \<open>\<open>SimpleDatabase.save_reading\<close>; \<open>now\<close> is the \<open>datetime.now()\<close> taken inside it.\<close>

definition save_reading ::
  "bool \<Rightarrow> datetime \<Rightarrow> real \<Rightarrow> real \<Rightarrow> real \<Rightarrow> row list \<Rightarrow> error + row list" where
  "save_reading ok now temp hum pres rows =
     (if ok
      then Inr (rows @ [\<lparr>row_id = next_id rows, row_timestamp = dt_iso now,
                         row_temperature = temp, row_humidity = hum, row_pressure = pres\<rparr>])
      else Inl DatabaseError)"

text \<open>\<open>SimpleDatabase.get_recent\<close>: the connection is opened, then \<open>limit\<close> is bound to
  the \<open>LIMIT\<close> parameter, then the statement runs.\<close>

definition get_recent :: "bool \<Rightarrow> int \<Rightarrow> row list \<Rightarrow> error + row list" where
  "get_recent ok limit rows =
     (if ok
      then (case bind_int limit of
              Inl e \<Rightarrow> Inl e
            | Inr n \<Rightarrow> Inr (sql_limit n (order_by_timestamp_desc rows)))
      else Inl DatabaseError)"

text \<open>\<open>SimpleDatabase.get_last_hour\<close>; \<open>hour_ago\<close> is the text
  \<open>datetime.fromtimestamp(datetime.now().timestamp() - 3600).isoformat()\<close>. The
  \<open>WHERE\<close> clause is \<open>timestamp > ?\<close>.\<close>

definition get_last_hour :: "bool \<Rightarrow> string \<Rightarrow> row list \<Rightarrow> error + row list" where
  "get_last_hour ok hour_ago rows =
     (if ok
      then Inr (order_by_timestamp_asc (filter (\<lambda>r. hour_ago < row_timestamp r) rows))
      else Inl DatabaseError)"

section \<open>The monitor: \<open>SensorMonitor\<close>\<close>

text \<open>\<open>SensorMonitor._default_config\<close>. The location is the UTF-8 text of the Russian
  word for a study.\<close>

definition default_config :: pyval where
  "default_config = PDict
     [(''device'', PDict
         [(''name'', PStr ''raspberry-pi-climate''),
          (''location'', PStr (map char_of
             [0xD0, 0xBA, 0xD0, 0xB0, 0xD0, 0xB1, 0xD0, 0xB8, 0xD0, 0xBD, 0xD0, 0xB5,
              0xD1, 0x82 :: nat]))]),
      (''sensor'', PDict
         [(''i2c_bus'', PInt 1),
          (''i2c_address'', PInt 0x76),
          (''sea_level_pressure'', PFloat (101325 / 100)),
          (''read_interval'', PInt 10),
          (''temperature_offset'', PFloat 0),
          (''humidity_offset'', PFloat 0),
          (''pressure_offset'', PFloat 0)]),
      (''logging'', PDict
         [(''level'', PStr ''INFO''),
          (''file'', PStr ''./sensor_monitor.log''),
          (''max_size_mb'', PInt 10),
          (''backup_count'', PInt 5)])]"

text \<open>\<open>SensorMonitor.load_config\<close>. The file system is a map from paths to contents
  (\<open>open\<close> raises on a path outside its domain); \<open>safe_load\<close> is the YAML parser, which
  returns a value or raises. Either exception ends in the handler, which returns the
  default configuration.\<close>

definition load_config ::
  "(string \<Rightarrow> error + pyval) \<Rightarrow> (string \<Rightarrow> string option) \<Rightarrow> string \<Rightarrow> pyval" where
  "load_config safe_load fs config_path =
     (case fs config_path of
        None \<Rightarrow> default_config
      | Some text \<Rightarrow> (case safe_load text of Inl e \<Rightarrow> default_config | Inr cfg \<Rightarrow> cfg))"

text \<open>The monitor's attributes. \<open>db\<close> is the content of the table; \<open>threads\<close> counts the
  background threads that \<open>start\<close> has created.\<close>

record SensorMonitor =
  config :: pyval
  running :: bool
  mon_sensor :: ThermalSensor
  db :: "row list"
  threads :: nat

text \<open>\<open>SensorMonitor.__init__\<close>; \<open>disk\<close> is the table found in the database file.\<close>

definition SensorMonitor_init ::
  "(string \<Rightarrow> error + pyval) \<Rightarrow> (string \<Rightarrow> string option) \<Rightarrow> hw_env \<Rightarrow> bool \<Rightarrow> row list \<Rightarrow>
   string \<Rightarrow> error + SensorMonitor" where
  "SensorMonitor_init safe_load fs hw db_ok disk config_path =
     (let cfg = load_config safe_load fs config_path
      in case ThermalSensor_init cfg hw of
           Inl e \<Rightarrow> Inl e
         | Inr s \<Rightarrow>
           (case init_db db_ok disk of
              Inl e \<Rightarrow> Inl e
            | Inr rows \<Rightarrow>
                Inr \<lparr>config = cfg, running = False, mon_sensor = s, db = rows,
                     threads = 0\<rparr>))"

subsection \<open>The web API\<close>

record current_response =
  success :: bool
  sensor_connected :: bool
  stats :: "SensorReading option"

record health_response =
  status :: string
  health_sensor_connected :: bool
  health_timestamp :: string

text \<open>\<open>api_current\<close>. The reading is tested for truthiness; an instance of the dataclass
  is always truthy, so the test is \<open>reading is not None\<close>. An exception of
  \<open>save_reading\<close> leaves the handler, and no answer is built.\<close>

definition api_current ::
  "SensorMonitor \<Rightarrow> read_env \<Rightarrow> bool \<Rightarrow> datetime \<Rightarrow> real option \<Rightarrow>
   error + current_response \<times> SensorMonitor" where
  "api_current m env db_ok now probe =
     (let reading = read (mon_sensor m) env;
          answer = \<lparr>success = True,
                    sensor_connected = is_connected (mon_sensor m) probe,
                    stats = reading\<rparr>
      in case reading of
           None \<Rightarrow> Inr (answer, m)
         | Some r \<Rightarrow>
           (case save_reading db_ok now (temperature r) (humidity r) (pressure r) (db m) of
              Inl e \<Rightarrow> Inl e
            | Inr rows \<Rightarrow> Inr (answer, m\<lparr>db := rows\<rparr>)))"


text \<open>\<open>self.config['sensor']['read_interval']\<close>.\<close>

definition read_interval_of :: "pyval \<Rightarrow> error + pyval" where
  "read_interval_of cfg =
     (case getitem cfg ''sensor'' of Inl e \<Rightarrow> Inl e | Inr c \<Rightarrow> getitem c ''read_interval'')"



text \<open>\<open>api_health\<close>.\<close>

definition api_health :: "SensorMonitor \<Rightarrow> real option \<Rightarrow> datetime \<Rightarrow> health_response" where
  "api_health m probe now =
     \<lparr>status = ''ok'',
      health_sensor_connected = is_connected (mon_sensor m) probe,
      health_timestamp = dt_iso now\<rparr>"

subsection \<open>The background thread\<close>

text \<open>\<open>time.sleep(x)\<close> raises \<open>ValueError\<close> on a negative number and \<open>TypeError\<close> on a value
  that is not a number.\<close>

fun sleep :: "pyval \<Rightarrow> error + unit" where
  "sleep (PInt n) = (if n < 0 then Inl ValueError else Inr ())"
| "sleep (PFloat f) = (if f < 0 then Inl ValueError else Inr ())"
| "sleep (PBool b) = Inr ()"
| "sleep v = Inl TypeError"

text \<open>One pass of the \<open>while\<close> loop sees the flag \<open>self.running\<close>, which other threads
  write, and makes one call of \<open>read\<close>.\<close>

record cycle_env =
  seen_running :: bool
  cycle_read :: read_env

text \<open>How the thread stands after the passes it was given: it left the loop, it was
  ended by an exception, or it is still in the loop.\<close>

datatype thread_state = Returned | Died error | Looping

text \<open>The loop of \<open>_data_collection_thread\<close>. The body reads the sensor, writes a debug
  line if there is a reading, and sleeps; the handler sleeps again, outside any \<open>try\<close>.\<close>

fun collection_loop ::
  "pyval \<Rightarrow> SensorMonitor \<Rightarrow> cycle_env list \<Rightarrow> thread_state \<times> SensorMonitor" where
  "collection_loop read_interval m [] = (Looping, m)"
| "collection_loop read_interval m (c # cs) =
     (if \<not> seen_running c then (Returned, m)
      else (let reading = read (mon_sensor m) (cycle_read c)
            in case sleep read_interval of
                 Inr u \<Rightarrow> collection_loop read_interval m cs
               | Inl e \<Rightarrow>
                 (case sleep read_interval of
                    Inr u \<Rightarrow> collection_loop read_interval m cs
                  | Inl e' \<Rightarrow> (Died e', m))))"

text \<open>\<open>SensorMonitor._data_collection_thread\<close>.\<close>

definition data_collection_thread ::
  "SensorMonitor \<Rightarrow> cycle_env list \<Rightarrow> thread_state \<times> SensorMonitor" where
  "data_collection_thread m cycles =
     (case read_interval_of (config m) of
        Inl e \<Rightarrow> (Died e, m)
      | Inr read_interval \<Rightarrow> collection_loop read_interval m cycles)"

text \<open>\<open>SensorMonitor.start\<close> and \<open>SensorMonitor.stop\<close>.\<close>

definition start :: "SensorMonitor \<Rightarrow> SensorMonitor" where
  "start m = m\<lparr>running := True, threads := threads m + 1\<rparr>"

definition stop :: "SensorMonitor \<Rightarrow> SensorMonitor" where
  "stop m = m\<lparr>running := False\<rparr>"

section \<open>Concrete inputs\<close>

text \<open>Inputs on which the theorems below are evaluated: a platform without the driver
  libraries and one with a working sensor, a configuration with calibration offsets, the
  sensor objects built from them, a round of device answers, and a monitor in emulation
  mode with an empty table.\<close>

definition emulation_hw :: hw_env where
  "emulation_hw = \<lparr>BME280_AVAILABLE = False, i2c_ok = False, device_ok = False\<rparr>"

definition working_hw :: hw_env where
  "working_hw = \<lparr>BME280_AVAILABLE = True, i2c_ok = True, device_ok = True\<rparr>"

definition calibrated_sensor_config :: "(string \<times> pyval) list" where
  "calibrated_sensor_config =
     [(''i2c_bus'', PInt 1),
      (''i2c_address'', PInt 0x76),
      (''read_interval'', PInt 10),
      (''temperature_offset'', PFloat (- (3 / 2))),
      (''humidity_offset'', PInt 2)]"

definition calibrated_config :: pyval where
  "calibrated_config = PDict [(''sensor'', PDict calibrated_sensor_config)]"

definition default_sensor_config :: "(string \<times> pyval) list" where
  "default_sensor_config =
     [(''i2c_bus'', PInt 1),
      (''i2c_address'', PInt 0x76),
      (''sea_level_pressure'', PFloat (101325 / 100)),
      (''read_interval'', PInt 10),
      (''temperature_offset'', PFloat 0),
      (''humidity_offset'', PFloat 0),
      (''pressure_offset'', PFloat 0)]"

definition mock_sensor :: ThermalSensor where
  "mock_sensor =
     \<lparr>sensor_config = PDict default_sensor_config, i2c_bus = PInt 1,
      i2c_address = PInt 0x76, sensor = None,
      temp_offset = None, hum_offset = None, pres_offset = None\<rparr>"

definition calibrated_sensor :: ThermalSensor where
  "calibrated_sensor =
     \<lparr>sensor_config = PDict calibrated_sensor_config, i2c_bus = PInt 1,
      i2c_address = PInt 0x76,
      sensor = Some \<lparr>dev_address = PInt 0x76, sea_level_pressure = PFloat (101325 / 100)\<rparr>,
      temp_offset = Some (PFloat (- (3 / 2))), hum_offset = Some (PInt 2),
      pres_offset = Some (PFloat 0)\<rparr>"

definition night_env :: read_env where
  "night_env =
     \<lparr>clock1 = \<lparr>dt_hour = 3, dt_iso = ''2024-05-01T03:59:59.999999''\<rparr>,
      clock2 = \<lparr>dt_hour = 4, dt_iso = ''2024-05-01T04:00:00''\<rparr>,
      sample = \<lparr>raw_temperature = Some 21, raw_humidity = Some 40,
                raw_pressure = Some 1000, raw_altitude = Some 110\<rparr>,
      u_temp = 1 / 4, u_hum = - 5, u_pres = 10, u_alt = 0\<rparr>"

definition mock_monitor :: SensorMonitor where
  "mock_monitor =
     \<lparr>config = default_config, running = False, mon_sensor = mock_sensor, db = [],
      threads = 0\<rparr>"

definition night_cycle :: cycle_env where
  "night_cycle = \<lparr>seen_running = True, cycle_read = night_env\<rparr>"

text \<open>Three stored measurements, taken 90, 30 and 5 minutes before 10:00.\<close>

definition morning_rows :: "row list" where
  "morning_rows =
     [\<lparr>row_id = 1, row_timestamp = ''2024-05-01T08:30:00'', row_temperature = 20,
       row_humidity = 41, row_pressure = 1001\<rparr>,
      \<lparr>row_id = 2, row_timestamp = ''2024-05-01T09:30:00.250000'', row_temperature = 21,
       row_humidity = 42, row_pressure = 1002\<rparr>,
      \<lparr>row_id = 3, row_timestamp = ''2024-05-01T09:55:00.125000'', row_temperature = 22,
       row_humidity = 43, row_pressure = 1003\<rparr>]"

section \<open>Properties of the sensor\<close>

text \<open>
  Rounding to two decimals moves a value by at most half a hundredth.
\<close>

lemma py_round2_near: "\<bar>py_round2 x - x\<bar> \<le> 1 / 200"
proof -
  define y where "y = x * 100"
  define f where "f = \<lfloor>y\<rfloor>"
  have f1: "of_int f \<le> y" and f2: "y < of_int f + 1"
    unfolding f_def by linarith+
  have "\<bar>py_round2 x * 100 - y\<bar> \<le> 1 / 2"
    using f1 f2 unfolding py_round2_def Let_def y_def [symmetric] f_def [symmetric]
    by (auto simp: abs_le_iff)
  then show ?thesis unfolding y_def by linarith
qed

lemma read_mock_temperature:
  "temperature (read_mock env) =
     py_round2 (22 + (if 2 \<le> dt_hour (clock1 env) \<and> dt_hour (clock1 env) \<le> 6 then - 3
                      else if 12 \<le> dt_hour (clock1 env) \<and> dt_hour (clock1 env) \<le> 16 then 3
                      else 0) + u_temp env)"
  by (simp add: read_mock_def Let_def)

text \<open>
  The two sensor objects of the concrete inputs are the ones the constructor
  builds.
\<close>

lemma mock_sensor_init: "ThermalSensor_init default_config emulation_hw = Inr mock_sensor"
  by (simp add: ThermalSensor_init_def default_config_def emulation_hw_def init_sensor_def
      mock_sensor_def default_sensor_config_def)

lemma calibrated_sensor_init:
  "ThermalSensor_init calibrated_config working_hw = Inr calibrated_sensor"
  by (simp add: ThermalSensor_init_def calibrated_config_def working_hw_def init_sensor_def
      calibrated_sensor_def calibrated_sensor_config_def dict_get_def)

text \<open>
  C3 (as amended). \<open>is_connected\<close> returns \<open>False\<close> whenever there is no driver object,
  which is the case in emulation mode; with a driver object it returns \<open>True\<close> exactly
  when the one probe read of the temperature succeeds.
\<close>

theorem is_connected_probe:
  "(sensor s = None \<longrightarrow> is_connected s probe = False) \<and>
   (sensor s \<noteq> None \<longrightarrow> is_connected s probe = (probe \<noteq> None)) \<and>
   (ThermalSensor_init cfg hw = Inr s \<and> \<not> BME280_AVAILABLE hw \<longrightarrow> sensor s = None)"
  by (auto simp: is_connected_def ThermalSensor_init_def init_sensor_def
      split: option.splits sum.splits)

text \<open>
  The claim as stated, true for the mock variant, fails on the sensor that the default
  configuration gives on a platform without the driver libraries.
\<close>

theorem is_connected_mock_counterexample:
  "ThermalSensor_init default_config emulation_hw = Inr mock_sensor \<and>
   sensor mock_sensor = None \<and>
   is_connected mock_sensor (Some 21) = False"
  by (simp add: mock_sensor_init) (simp add: mock_sensor_def is_connected_def)

theorem is_connected_probe_witness:
  "sensor mock_sensor = None \<and> is_connected mock_sensor (Some 21) = False \<and>
   sensor calibrated_sensor \<noteq> None \<and>
   is_connected calibrated_sensor (Some 21) = True \<and>
   is_connected calibrated_sensor None = False \<and>
   ThermalSensor_init default_config emulation_hw = Inr mock_sensor \<and>
   \<not> BME280_AVAILABLE emulation_hw"
proof -
  have a: "sensor mock_sensor = None" by (simp add: mock_sensor_def)
  have b: "sensor calibrated_sensor \<noteq> None" by (simp add: calibrated_sensor_def)
  have c: "\<not> BME280_AVAILABLE emulation_hw" by (simp add: emulation_hw_def)
  show ?thesis
    using a b c mock_sensor_init
      is_connected_probe [of mock_sensor "Some 21" default_config emulation_hw]
      is_connected_probe [of calibrated_sensor "Some 21" default_config emulation_hw]
      is_connected_probe [of calibrated_sensor None default_config emulation_hw]
    by simp
qed

text \<open>
  C6. The mock read never fails: without a driver object \<open>read\<close> returns the mock's
  reading for every hour and every jitter, and with a jitter in \<open>[-0.5, 0.5]\<close> its
  temperature is the rounded sum of the base 22, the tier offset (-3 for the hours 2 to 6,
  +3 for the hours 12 to 16, 0 otherwise) and the jitter, and lies within 4 degrees of the
  base.
\<close>

theorem mock_read_never_fails:
  assumes "sensor s = None" and "- (1 / 2) \<le> u_temp env" and "u_temp env \<le> 1 / 2"
  shows "read s env = Some (read_mock env) \<and>
         temperature (read_mock env) =
           py_round2 (22 + (if 2 \<le> dt_hour (clock1 env) \<and> dt_hour (clock1 env) \<le> 6 then - 3
                            else if 12 \<le> dt_hour (clock1 env) \<and> dt_hour (clock1 env) \<le> 16
                                 then 3
                            else 0) + u_temp env) \<and>
         22 - 4 \<le> temperature (read_mock env) \<and> temperature (read_mock env) \<le> 22 + 4"
proof -
  define v :: real where
    "v = (if 2 \<le> dt_hour (clock1 env) \<and> dt_hour (clock1 env) \<le> 6 then - 3
          else if 12 \<le> dt_hour (clock1 env) \<and> dt_hour (clock1 env) \<le> 16 then 3 else 0)"
  have t: "temperature (read_mock env) = py_round2 (22 + v + u_temp env)"
    unfolding v_def by (rule read_mock_temperature)
  have v: "- 3 \<le> v" "v \<le> 3"
    by (simp_all add: v_def)
  have "\<bar>py_round2 (22 + v + u_temp env) - (22 + v + u_temp env)\<bar> \<le> 1 / 200"
    by (rule py_round2_near)
  with v assms(2,3) have "22 - 4 \<le> py_round2 (22 + v + u_temp env)"
    and "py_round2 (22 + v + u_temp env) \<le> 22 + 4"
    by linarith+
  moreover have "read s env = Some (read_mock env)"
    using assms(1) by (simp add: read_def)
  ultimately show ?thesis
    using t unfolding v_def by simp
qed

theorem mock_read_never_fails_witness:
  "sensor mock_sensor = None \<and> - (1 / 2) \<le> u_temp night_env \<and> u_temp night_env \<le> 1 / 2 \<and>
   read mock_sensor night_env = Some (read_mock night_env) \<and>
   temperature (read_mock night_env) = 77 / 4 \<and>
   22 - 4 \<le> temperature (read_mock night_env) \<and> temperature (read_mock night_env) \<le> 22 + 4"
proof -
  have h: "sensor mock_sensor = None" "- (1 / 2) \<le> u_temp night_env" "u_temp night_env \<le> 1 / 2"
    by (simp_all add: mock_sensor_def night_env_def)
  have "temperature (read_mock night_env) = 77 / 4"
    by (simp add: read_mock_def night_env_def py_round2_def)
  with h mock_read_never_fails [OF h] show ?thesis by simp
qed

text \<open>
  The offsets held by a sensor with a driver object are the ones the configuration
  gives, 0.0 where it gives none; a property read that raises makes the device read
  raise.
\<close>

lemma init_sensor_offsets:
  assumes "ThermalSensor_init cfg hw = Inr s" and "sensor s \<noteq> None"
    and "getitem cfg ''sensor'' = Inr (PDict kvs)"
  shows "temp_offset s = Some (dict_get kvs ''temperature_offset'' (PFloat 0))"
    and "hum_offset s = Some (dict_get kvs ''humidity_offset'' (PFloat 0))"
    and "pres_offset s = Some (dict_get kvs ''pressure_offset'' (PFloat 0))"
  using assms
  by (auto simp: ThermalSensor_init_def init_sensor_def Let_def
      split: sum.splits if_splits)

lemma read_device_raises:
  "raw_temperature (sample env) = None \<or> raw_humidity (sample env) = None \<or>
   raw_pressure (sample env) = None \<or> raw_altitude (sample env) = None \<Longrightarrow>
   \<exists>e. read_device s env = Inl e"
  by (auto simp: read_device_def device_read_def split: sum.splits option.splits)

text \<open>
  C7. On the hardware variant, built from a configuration: when the device answers all
  four property reads and the configured offsets are numbers, \<open>read\<close> returns a reading
  whose temperature, humidity and pressure are the raw value plus the configured offset,
  field by field; when a property read raises, and on any other exception of the device
  read, \<open>read\<close> returns \<open>None\<close>.
\<close>

theorem hardware_read_offsets:
  assumes "ThermalSensor_init cfg hw = Inr s" and "sensor s \<noteq> None"
    and "getitem cfg ''sensor'' = Inr (PDict kvs)"
  shows "(as_number (dict_get kvs ''temperature_offset'' (PFloat 0)) = Some t_off \<and>
          as_number (dict_get kvs ''humidity_offset'' (PFloat 0)) = Some h_off \<and>
          as_number (dict_get kvs ''pressure_offset'' (PFloat 0)) = Some p_off \<and>
          sample env = \<lparr>raw_temperature = Some t, raw_humidity = Some h,
                        raw_pressure = Some p, raw_altitude = Some a\<rparr> \<longrightarrow>
          read s env = Some \<lparr>timestamp = clock1 env, temperature = t + t_off,
                             humidity = h + h_off, pressure = p + p_off,
                             altitude = Some a\<rparr>) \<and>
         (raw_temperature (sample env) = None \<or> raw_humidity (sample env) = None \<or>
          raw_pressure (sample env) = None \<or> raw_altitude (sample env) = None \<longrightarrow>
          read s env = None) \<and>
         (read_device s env = Inl e \<longrightarrow> read s env = None)"
proof (intro conjI impI)
  assume h: "as_number (dict_get kvs ''temperature_offset'' (PFloat 0)) = Some t_off \<and>
          as_number (dict_get kvs ''humidity_offset'' (PFloat 0)) = Some h_off \<and>
          as_number (dict_get kvs ''pressure_offset'' (PFloat 0)) = Some p_off \<and>
          sample env = \<lparr>raw_temperature = Some t, raw_humidity = Some h,
                        raw_pressure = Some p, raw_altitude = Some a\<rparr>"
  have "read_device s env = Inr \<lparr>timestamp = clock1 env, temperature = t + t_off,
                             humidity = h + h_off, pressure = p + p_off,
                             altitude = Some a\<rparr>"
    using h init_sensor_offsets [OF assms]
    by (simp add: read_device_def device_read_def)
  then show "read s env = Some \<lparr>timestamp = clock1 env, temperature = t + t_off,
                             humidity = h + h_off, pressure = p + p_off,
                             altitude = Some a\<rparr>"
    using assms(2) by (auto simp: read_def)
next
  assume "raw_temperature (sample env) = None \<or> raw_humidity (sample env) = None \<or>
          raw_pressure (sample env) = None \<or> raw_altitude (sample env) = None"
  then obtain e' where "read_device s env = Inl e'"
    using read_device_raises by blast
  then show "read s env = None"
    using assms(2) by (auto simp: read_def)
next
  assume "read_device s env = Inl e"
  then show "read s env = None"
    using assms(2) by (auto simp: read_def)
qed

theorem hardware_read_offsets_witness:
  "ThermalSensor_init calibrated_config working_hw = Inr calibrated_sensor \<and>
   sensor calibrated_sensor \<noteq> None \<and>
   read calibrated_sensor night_env =
     Some \<lparr>timestamp = clock1 night_env, temperature = 39 / 2, humidity = 42,
           pressure = 1000, altitude = Some 110\<rparr> \<and>
   read calibrated_sensor
     (night_env\<lparr>sample := \<lparr>raw_temperature = Some 21, raw_humidity = None,
                            raw_pressure = Some 1000, raw_altitude = Some 110\<rparr>\<rparr>) = None"
proof -
  have a: "sensor calibrated_sensor \<noteq> None" by (simp add: calibrated_sensor_def)
  have b: "getitem calibrated_config ''sensor'' = Inr (PDict calibrated_sensor_config)"
    by (simp add: calibrated_config_def)
  note th = hardware_read_offsets [OF calibrated_sensor_init a b]
  have "read calibrated_sensor night_env =
     Some \<lparr>timestamp = clock1 night_env, temperature = 21 + - (3 / 2), humidity = 40 + 2,
           pressure = 1000 + 0, altitude = Some 110\<rparr>"
    using th [of "- (3 / 2)" 2 0 night_env 21 40 1000 110]
    by (simp add: calibrated_sensor_config_def dict_get_def night_env_def)
  moreover have "read calibrated_sensor
     (night_env\<lparr>sample := \<lparr>raw_temperature = Some 21, raw_humidity = None,
                            raw_pressure = Some 1000, raw_altitude = Some 110\<rparr>\<rparr>) = None"
    using th [of 0 0 0 "night_env\<lparr>sample := \<lparr>raw_temperature = Some 21, raw_humidity = None,
                            raw_pressure = Some 1000, raw_altitude = Some 110\<rparr>\<rparr>"]
    by simp
  ultimately show ?thesis
    using a calibrated_sensor_init by simp
qed

section \<open>Serialisation of a reading\<close>

text \<open>
  Rounding to two decimals gives a whole number of hundredths, at most half a hundredth
  away from the value, and an even number of hundredths when the value lies exactly
  half way between two.
\<close>

lemma py_round2_half_even:
  "\<exists>k::int. py_round2 x = of_int k / 100 \<and> \<bar>of_int k / 100 - x\<bar> \<le> 1 / 200 \<and>
     (\<bar>of_int k / 100 - x\<bar> = 1 / 200 \<longrightarrow> even k)"
proof -
  define y where "y = x * 100"
  define f where "f = \<lfloor>y\<rfloor>"
  define d where "d = y - of_int f"
  have d: "0 \<le> d" "d < 1"
    unfolding d_def f_def by linarith+
  have x: "x = (of_int f + d) / 100"
    by (simp add: d_def y_def)
  have p: "py_round2 x =
      of_int (if d < 1 / 2 then f else if 1 / 2 < d then f + 1
              else if even f then f else f + 1) / 100"
    unfolding py_round2_def Let_def y_def [symmetric] f_def [symmetric] d_def [symmetric]
    by (rule refl)
  have dist: "c / 100 - x = (c - of_int f - d) / 100" for c :: real
    unfolding x by (simp add: field_simps)
  consider "d < 1 / 2" | "1 / 2 < d" | "d = 1 / 2" "even f" | "d = 1 / 2" "odd f"
    by fastforce
  then show ?thesis
  proof cases
    case 1
    then have "py_round2 x = of_int f / 100"
      using p by simp
    moreover have "\<bar>of_int f / 100 - x\<bar> < 1 / 200"
      using 1 d by (simp add: dist)
    ultimately show ?thesis
      by (intro exI [of _ f]) simp
  next
    case 2
    then have "py_round2 x = of_int (f + 1) / 100"
      using p by simp
    moreover have "\<bar>of_int (f + 1) / 100 - x\<bar> < 1 / 200"
      using 2 d by (simp add: dist)
    ultimately show ?thesis
      by (intro exI [of _ "f + 1"]) simp
  next
    case 3
    then have "py_round2 x = of_int f / 100"
      using p by simp
    moreover have "\<bar>of_int f / 100 - x\<bar> = 1 / 200"
      using 3 by (simp add: dist)
    ultimately show ?thesis
      using 3(2) by (intro exI [of _ f]) simp
  next
    case 4
    then have "py_round2 x = of_int (f + 1) / 100"
      using p by simp
    moreover have "\<bar>of_int (f + 1) / 100 - x\<bar> = 1 / 200"
      using 4 by (simp add: dist)
    ultimately show ?thesis
      using 4(2) by (intro exI [of _ "f + 1"]) simp
  qed
qed

text \<open>
  C10. For every reading whose altitude is 0.0, \<open>to_dict\<close> reports the altitude as \<open>None\<close>,
  exactly as it does for a reading whose altitude is missing; for every non-zero altitude
  it reports the altitude rounded to two decimals: a whole number of hundredths, the
  nearest to the altitude, the even one of the two on a tie.
\<close>

theorem to_dict_altitude:
  "(altitude r = Some 0 \<longrightarrow>
      getitem (to_dict r) ''altitude'' = Inr PNone \<and>
      to_dict r = to_dict (r\<lparr>altitude := None\<rparr>)) \<and>
   (altitude r = Some a \<and> a \<noteq> 0 \<longrightarrow>
      getitem (to_dict r) ''altitude'' = Inr (PFloat (py_round2 a)) \<and>
      (\<exists>k::int. getitem (to_dict r) ''altitude'' = Inr (PFloat (of_int k / 100)) \<and>
                 \<bar>of_int k / 100 - a\<bar> \<le> 1 / 200 \<and>
                 (\<bar>of_int k / 100 - a\<bar> = 1 / 200 \<longrightarrow> even k)))"
proof -
  obtain k :: int where k: "py_round2 a = of_int k / 100" "\<bar>of_int k / 100 - a\<bar> \<le> 1 / 200"
      "\<bar>of_int k / 100 - a\<bar> = 1 / 200 \<longrightarrow> even k"
    using py_round2_half_even [of a] by blast
  have zero: "altitude r = Some 0 \<longrightarrow>
      getitem (to_dict r) ''altitude'' = Inr PNone \<and>
      to_dict r = to_dict (r\<lparr>altitude := None\<rparr>)"
    by (simp add: to_dict_def)
  have nonzero: "getitem (to_dict r) ''altitude'' = Inr (PFloat (py_round2 a))"
    if "altitude r = Some a" "a \<noteq> 0"
    using that by (simp add: to_dict_def)
  show ?thesis
    using zero nonzero k by metis
qed

text \<open>
  On the altitudes 0.0, 123.45678 and 0.125: the first is reported as \<open>None\<close>, the
  second as 123.46, which is not the altitude itself, and the third, a tie, as 0.12.
\<close>

theorem to_dict_altitude_witness:
  "getitem (to_dict \<lparr>timestamp = \<lparr>dt_hour = 9, dt_iso = ''2024-05-01T09:00:00''\<rparr>,
       temperature = 21, humidity = 40, pressure = 1000, altitude = Some 0\<rparr>) ''altitude''
     = Inr PNone \<and>
   (12345678 / 100000 :: real) \<noteq> 0 \<and>
   getitem (to_dict \<lparr>timestamp = \<lparr>dt_hour = 9, dt_iso = ''2024-05-01T09:00:00''\<rparr>,
       temperature = 21, humidity = 40, pressure = 1000,
       altitude = Some (12345678 / 100000)\<rparr>) ''altitude''
     = Inr (PFloat (12346 / 100)) \<and>
   (12346 / 100 :: real) \<noteq> 12345678 / 100000 \<and>
   (1 / 8 :: real) \<noteq> 0 \<and>
   getitem (to_dict \<lparr>timestamp = \<lparr>dt_hour = 9, dt_iso = ''2024-05-01T09:00:00''\<rparr>,
       temperature = 21, humidity = 40, pressure = 1000, altitude = Some (1 / 8)\<rparr>)
       ''altitude''
     = Inr (PFloat (12 / 100))"
proof -
  define base :: SensorReading where
    "base = \<lparr>timestamp = \<lparr>dt_hour = 9, dt_iso = ''2024-05-01T09:00:00''\<rparr>,
       temperature = 21, humidity = 40, pressure = 1000, altitude = None\<rparr>"
  have moved: "py_round2 (12345678 / 100000) = 12346 / 100"
    by (simp add: py_round2_def)
  have tie: "py_round2 (1 / 8) = 12 / 100"
    by (simp add: py_round2_def)
  have "altitude (base\<lparr>altitude := Some 0\<rparr>) = Some 0"
    by simp
  then have a: "getitem (to_dict (base\<lparr>altitude := Some 0\<rparr>)) ''altitude'' = Inr PNone"
    using to_dict_altitude [of "base\<lparr>altitude := Some 0\<rparr>" 0] by blast
  have "altitude (base\<lparr>altitude := Some (12345678 / 100000)\<rparr>) = Some (12345678 / 100000) \<and>
      (12345678 / 100000 :: real) \<noteq> 0"
    by simp
  then have "getitem (to_dict (base\<lparr>altitude := Some (12345678 / 100000)\<rparr>)) ''altitude'' =
      Inr (PFloat (py_round2 (12345678 / 100000)))"
    using to_dict_altitude [of "base\<lparr>altitude := Some (12345678 / 100000)\<rparr>"
        "12345678 / 100000"] by blast
  then have b: "getitem (to_dict (base\<lparr>altitude := Some (12345678 / 100000)\<rparr>)) ''altitude'' =
      Inr (PFloat (12346 / 100))"
    unfolding moved .
  have "altitude (base\<lparr>altitude := Some (1 / 8)\<rparr>) = Some (1 / 8) \<and> (1 / 8 :: real) \<noteq> 0"
    by simp
  then have "getitem (to_dict (base\<lparr>altitude := Some (1 / 8)\<rparr>)) ''altitude'' =
      Inr (PFloat (py_round2 (1 / 8)))"
    using to_dict_altitude [of "base\<lparr>altitude := Some (1 / 8)\<rparr>" "1 / 8"] by blast
  then have c: "getitem (to_dict (base\<lparr>altitude := Some (1 / 8)\<rparr>)) ''altitude'' =
      Inr (PFloat (12 / 100))"
    unfolding tie .
  have d: "(12346 / 100 :: real) \<noteq> 12345678 / 100000" "(12345678 / 100000 :: real) \<noteq> 0"
    "(1 / 8 :: real) \<noteq> 0"
    by simp_all
  show ?thesis
    using a b c d unfolding base_def by (simp only: SensorReading.simps simp_thms)
qed

section \<open>Properties of the store\<close>

text \<open>
  A prefix of the reversed ascending order is in descending order, and whatever comes
  early in the ascending order is at most whatever comes late.
\<close>

lemma sorted_desc_take:
  assumes "sorted (map f S)"
  shows "sorted (rev (map f (take n (rev S))))"
proof -
  have "rev (map f (take n (rev S))) = map f (drop (length S - n) S)"
    by (simp add: take_rev rev_map drop_map)
  moreover have "sorted (drop (length S - n) (map f S))"
    using assms by (rule sorted_wrt_drop)
  ultimately show ?thesis by (simp add: drop_map)
qed

lemma sorted_split_le:
  assumes "sorted (map f S)" "x \<in> set (take k S)" "y \<in> set (drop k S)"
  shows "f x \<le> f y"
proof -
  have "sorted (map f (take k S) @ map f (drop k S))"
    using assms(1) by (simp flip: map_append)
  then show ?thesis
    using assms(2,3) by (auto simp: sorted_append)
qed

text \<open>
  A bound \<open>int\<close> within the signed 64-bit range arrives in SQLite with its value, and
  only such an \<open>int\<close> arrives at all.
\<close>

lemma bind_int_in_range:
  assumes "- (2 ^ 63) \<le> i" "i < 2 ^ 63"
  shows "\<exists>n. bind_int i = Inr n \<and> sint n = i"
proof -
  have "sint (word_of_int i :: 64 word) = i"
    using assms by (simp add: sint_sbintrunc' signed_take_bit_int_eq_self)
  then show ?thesis
    using assms by (simp add: bind_int_def)
qed

lemma bind_int_Inr:
  assumes "bind_int i = Inr n"
  shows "sint n = i \<and> - (2 ^ 63) \<le> i \<and> i < 2 ^ 63"
proof -
  have r: "- (2 ^ 63) \<le> i" "i < 2 ^ 63"
    using assms by (auto simp: bind_int_def split: if_splits)
  with bind_int_in_range [OF r] assms show ?thesis by simp
qed

text \<open>
  C2 (as amended). The query of the last hour returns exactly the measurements whose
  timestamp is strictly greater than \<open>since\<close>, earliest first. \<open>get_recent\<close> with a limit
  from 0 to \<open>2^63 - 1\<close> returns \<open>min limit (number of rows)\<close> records, so at most \<open>limit\<close>,
  most recent first, and no record it leaves out is more recent than one it returns;
  whenever \<open>get_recent\<close> returns for a limit that is not negative, the limit is below
  \<open>2^63\<close> and the result has at most \<open>limit\<close> records, most recent first; from \<open>2^63\<close> on
  it raises \<open>OverflowError\<close>.
\<close>

theorem store_queries:
  "(\<exists>res. get_last_hour True since rows = Inr res \<and>
      mset res = filter_mset (\<lambda>r. since < row_timestamp r) (mset rows) \<and>
      sorted (map row_timestamp res)) \<and>
   (0 \<le> limit \<and> limit < 2 ^ 63 \<longrightarrow>
     (\<exists>res rest. get_recent True limit rows = Inr res \<and>
        length res \<le> nat limit \<and>
        length res = min (nat limit) (length rows) \<and>
        sorted (rev (map row_timestamp res)) \<and>
        mset rows = mset res + mset rest \<and>
        (\<forall>x\<in>set res. \<forall>y\<in>set rest. row_timestamp y \<le> row_timestamp x))) \<and>
   (0 \<le> limit \<and> get_recent ok limit rows = Inr found \<longrightarrow>
      limit < 2 ^ 63 \<and> length found \<le> nat limit \<and>
      sorted (rev (map row_timestamp found))) \<and>
   (2 ^ 63 \<le> limit \<longrightarrow> get_recent True limit rows = Inl OverflowError)"
proof -
  have window: "\<exists>res. get_last_hour True since rows = Inr res \<and>
      mset res = filter_mset (\<lambda>r. since < row_timestamp r) (mset rows) \<and>
      sorted (map row_timestamp res)"
    by (simp add: get_last_hour_def order_by_timestamp_asc_def)
  define S where "S = sort_key row_timestamp (rev rows)"
  define k where "k = length S - nat limit"
  define res where "res = take (nat limit) (rev S)"
  have S: "sorted (map row_timestamp S)" "mset S = mset rows" "length S = length rows"
    by (simp_all add: S_def)
  have res: "res = rev (drop k S)"
    by (simp add: res_def k_def take_rev)
  have g: "get_recent True limit rows = Inr res" if "0 \<le> limit" "limit < 2 ^ 63"
  proof -
    from that obtain n where "bind_int limit = Inr n" "sint n = limit"
      using bind_int_in_range [of limit] by auto
    with that show ?thesis
      by (simp add: get_recent_def sql_limit_def order_by_timestamp_desc_def res_def S_def)
  qed
  have split: "mset rows = mset res + mset (take k S)"
  proof -
    have "mset S = mset (take k S @ drop k S)" by simp
    then show ?thesis unfolding res S(2) [symmetric] by (simp del: append_take_drop_id)
  qed
  have later: "\<forall>x\<in>set res. \<forall>y\<in>set (take k S). row_timestamp y \<le> row_timestamp x"
    using sorted_split_le [OF S(1)] by (auto simp: res)
  have desc: "sorted (rev (map row_timestamp res))"
    unfolding res_def using S(1) by (rule sorted_desc_take)
  have len: "length res = min (nat limit) (length rows)"
    by (simp add: res_def S(3))
  have bounded: "\<exists>res rest. get_recent True limit rows = Inr res \<and>
        length res \<le> nat limit \<and>
        length res = min (nat limit) (length rows) \<and>
        sorted (rev (map row_timestamp res)) \<and>
        mset rows = mset res + mset rest \<and>
        (\<forall>x\<in>set res. \<forall>y\<in>set rest. row_timestamp y \<le> row_timestamp x)"
    if "0 \<le> limit" "limit < 2 ^ 63"
    using g [OF that] split later desc len
    by (intro exI [of _ res] exI [of _ "take k S"]) simp
  have returned: "limit < 2 ^ 63 \<and> length found \<le> nat limit \<and>
      sorted (rev (map row_timestamp found))"
    if "0 \<le> limit" "get_recent ok limit rows = Inr found"
  proof -
    from that(2) obtain n where n: "ok" "bind_int limit = Inr n"
      by (auto simp: get_recent_def split: if_splits sum.splits)
    from bind_int_Inr [OF n(2)] have r: "limit < 2 ^ 63" by simp
    from g [OF that(1) r] that(2) n(1) have "found = res" by simp
    with r desc len show ?thesis by simp
  qed
  have overflow: "get_recent True limit rows = Inl OverflowError" if "2 ^ 63 \<le> limit"
    using that by (simp add: get_recent_def bind_int_def)
  show ?thesis
    using window bounded returned overflow by blast
qed

text \<open>
  The claim as stated includes the measurements whose timestamp equals \<open>since\<close>; the
  query leaves such a measurement out.
\<close>

theorem window_boundary_counterexample:
  "''2024-05-01T09:00:00'' \<le> row_timestamp
      \<lparr>row_id = 1, row_timestamp = ''2024-05-01T09:00:00'', row_temperature = 20,
       row_humidity = 41, row_pressure = 1001\<rparr> \<and>
   get_last_hour True ''2024-05-01T09:00:00''
     [\<lparr>row_id = 1, row_timestamp = ''2024-05-01T09:00:00'', row_temperature = 20,
       row_humidity = 41, row_pressure = 1001\<rparr>] = Inr []"
  by (simp add: get_last_hour_def order_by_timestamp_asc_def)

text \<open>
  The two queries on the three measurements of the morning, one hour before 10:00, and
  a limit that does not fit 64 bits.
\<close>

lemma morning_last_hour:
  "get_last_hour True ''2024-05-01T09:00:00'' morning_rows = Inr (drop 1 morning_rows)"
  by (simp add: get_last_hour_def order_by_timestamp_asc_def morning_rows_def)

lemma morning_recent:
  "get_recent True 2 morning_rows = Inr (rev (drop 1 morning_rows))"
  by (simp add: get_recent_def bind_int_def order_by_timestamp_desc_def sql_limit_def
      morning_rows_def)

theorem store_queries_witness:
  "(0::int) \<le> 2 \<and> (2::int) < 2 ^ 63 \<and>
   get_last_hour True ''2024-05-01T09:00:00'' morning_rows = Inr (drop 1 morning_rows) \<and>
   mset (drop 1 morning_rows) =
     filter_mset (\<lambda>r. ''2024-05-01T09:00:00'' < row_timestamp r) (mset morning_rows) \<and>
   sorted (map row_timestamp (drop 1 morning_rows)) \<and>
   get_recent True 2 morning_rows = Inr (rev (drop 1 morning_rows)) \<and>
   length (rev (drop 1 morning_rows)) \<le> nat 2 \<and>
   sorted (rev (map row_timestamp (rev (drop 1 morning_rows)))) \<and>
   (2::int) ^ 63 \<le> 2 ^ 63 \<and>
   get_recent True (2 ^ 63) morning_rows = Inl OverflowError"
  using store_queries [of "''2024-05-01T09:00:00''" morning_rows 2 True "rev (drop 1 morning_rows)"]
    store_queries [of "''2024-05-01T09:00:00''" morning_rows "2 ^ 63" True "[]"]
  by (auto simp: morning_last_hour morning_recent)

section \<open>Properties of the web API\<close>

text \<open>
  C5. When the read of \<open>api_current\<close> gives a reading, every answer comes with the
  table extended by one row holding that reading's temperature, humidity and pressure
  (and if SQLite refuses the insert there is no answer); when the read gives \<open>None\<close>, the
  answer comes with the monitor, and so the table, unchanged.
\<close>

theorem api_current_appends:
  "(read (mon_sensor m) env = Some r \<and> db_ok \<longrightarrow>
      api_current m env db_ok now probe =
        Inr (\<lparr>success = True, sensor_connected = is_connected (mon_sensor m) probe,
              stats = Some r\<rparr>,
             m\<lparr>db := db m @ [\<lparr>row_id = next_id (db m), row_timestamp = dt_iso now,
                                row_temperature = temperature r,
                                row_humidity = humidity r,
                                row_pressure = pressure r\<rparr>]\<rparr>)) \<and>
   (read (mon_sensor m) env = Some r \<and> \<not> db_ok \<longrightarrow>
      api_current m env db_ok now probe = Inl DatabaseError) \<and>
   (read (mon_sensor m) env = None \<longrightarrow>
      api_current m env db_ok now probe =
        Inr (\<lparr>success = True, sensor_connected = is_connected (mon_sensor m) probe,
              stats = None\<rparr>, m))"
  by (simp add: api_current_def save_reading_def Let_def)

theorem api_current_appends_witness:
  "read (mon_sensor mock_monitor) night_env = Some (read_mock night_env) \<and>
   api_current mock_monitor night_env True
       \<lparr>dt_hour = 4, dt_iso = ''2024-05-01T04:00:00.000250''\<rparr> None =
     Inr (\<lparr>success = True, sensor_connected = False, stats = Some (read_mock night_env)\<rparr>,
          mock_monitor\<lparr>db := [\<lparr>row_id = 1, row_timestamp = ''2024-05-01T04:00:00.000250'',
                                 row_temperature = 77 / 4, row_humidity = 40,
                                 row_pressure = 4093 / 4\<rparr>]\<rparr>) \<and>
   api_current mock_monitor night_env False
       \<lparr>dt_hour = 4, dt_iso = ''2024-05-01T04:00:00.000250''\<rparr> None = Inl DatabaseError \<and>
   read (mon_sensor (mock_monitor\<lparr>mon_sensor := calibrated_sensor\<rparr>))
       (night_env\<lparr>sample := \<lparr>raw_temperature = None, raw_humidity = None,
                              raw_pressure = None, raw_altitude = None\<rparr>\<rparr>) = None \<and>
   api_current (mock_monitor\<lparr>mon_sensor := calibrated_sensor\<rparr>)
       (night_env\<lparr>sample := \<lparr>raw_temperature = None, raw_humidity = None,
                              raw_pressure = None, raw_altitude = None\<rparr>\<rparr>) True
       \<lparr>dt_hour = 4, dt_iso = ''2024-05-01T04:00:00.000250''\<rparr> None =
     Inr (\<lparr>success = True, sensor_connected = False, stats = None\<rparr>,
          mock_monitor\<lparr>mon_sensor := calibrated_sensor\<rparr>)"
proof -
  have a: "read (mon_sensor mock_monitor) night_env = Some (read_mock night_env)"
    by (simp add: mock_monitor_def mock_sensor_def read_def)
  have b: "read (mon_sensor (mock_monitor\<lparr>mon_sensor := calibrated_sensor\<rparr>))
       (night_env\<lparr>sample := \<lparr>raw_temperature = None, raw_humidity = None,
                              raw_pressure = None, raw_altitude = None\<rparr>\<rparr>) = None"
    by (simp add: calibrated_sensor_def read_def read_device_def device_read_def)
  have c: "is_connected mock_sensor None = False"
    "is_connected calibrated_sensor None = False"
    by (simp_all add: is_connected_def calibrated_sensor_def mock_sensor_def)
  have d: "read_mock night_env =
      \<lparr>timestamp = \<lparr>dt_hour = 4, dt_iso = ''2024-05-01T04:00:00''\<rparr>,
       temperature = 77 / 4, humidity = 40, pressure = 4093 / 4, altitude = Some 100\<rparr>"
    by (simp add: read_mock_def night_env_def py_round2_def)
  have e: "db mock_monitor = []" "next_id [] = 1" "mon_sensor mock_monitor = mock_sensor"
    by (simp_all add: mock_monitor_def next_id_def)
  show ?thesis
    using a b c e
      api_current_appends [of mock_monitor night_env "read_mock night_env" True
        "\<lparr>dt_hour = 4, dt_iso = ''2024-05-01T04:00:00.000250''\<rparr>" None]
      api_current_appends [of mock_monitor night_env "read_mock night_env" False
        "\<lparr>dt_hour = 4, dt_iso = ''2024-05-01T04:00:00.000250''\<rparr>" None]
      api_current_appends [of "mock_monitor\<lparr>mon_sensor := calibrated_sensor\<rparr>"
        "night_env\<lparr>sample := \<lparr>raw_temperature = None, raw_humidity = None,
                              raw_pressure = None, raw_altitude = None\<rparr>\<rparr>" "read_mock night_env" True
        "\<lparr>dt_hour = 4, dt_iso = ''2024-05-01T04:00:00.000250''\<rparr>" None]
    by (simp add: d)
qed



text \<open>
  C9. When the configuration file is missing, or is there and the parser raises on it,
  \<open>load_config\<close> returns the default configuration, the monitor is constructed with it
  (the database file being usable), and \<open>api_health\<close> answers with status \<open>ok\<close>.
\<close>

theorem load_config_falls_back:
  assumes "fs path = None \<or> (fs path = Some text \<and> safe_load text = Inl e)"
  shows "load_config safe_load fs path = default_config \<and>
         (\<exists>m. SensorMonitor_init safe_load fs hw True disk path = Inr m \<and>
              config m = default_config \<and> running m = False \<and> db m = disk \<and>
              api_health m probe now =
                \<lparr>status = ''ok'',
                 health_sensor_connected = is_connected (mon_sensor m) probe,
                 health_timestamp = dt_iso now\<rparr>)"
proof -
  have a: "load_config safe_load fs path = default_config"
    using assms by (auto simp: load_config_def)
  obtain s where b: "ThermalSensor_init default_config hw = Inr s"
    by (simp add: ThermalSensor_init_def default_config_def)
  have "SensorMonitor_init safe_load fs hw True disk path =
           Inr \<lparr>config = default_config, running = False, mon_sensor = s, db = disk,
                threads = 0\<rparr>"
    by (simp add: SensorMonitor_init_def a b init_db_def)
  then show ?thesis
    using a by (simp add: api_health_def)
qed

theorem load_config_falls_back_witness:
  "[''config.yaml'' \<mapsto> ''sensor: [''] ''config.yaml'' = Some ''sensor: ['' \<and>
   load_config (\<lambda>text. Inl ValueError) [''config.yaml'' \<mapsto> ''sensor: [''] ''config.yaml'' =
     default_config \<and>
   load_config (\<lambda>text. Inl ValueError) Map.empty ''config.yaml'' = default_config \<and>
   SensorMonitor_init (\<lambda>text. Inl ValueError) Map.empty emulation_hw True [] ''config.yaml'' =
     Inr mock_monitor \<and>
   api_health mock_monitor None \<lparr>dt_hour = 4, dt_iso = ''2024-05-01T04:00:00''\<rparr> =
     \<lparr>status = ''ok'', health_sensor_connected = False,
      health_timestamp = ''2024-05-01T04:00:00''\<rparr>"
proof -
  have a: "SensorMonitor_init (\<lambda>text. Inl ValueError) Map.empty emulation_hw True []
      ''config.yaml'' = Inr mock_monitor"
    by (simp add: SensorMonitor_init_def load_config_def mock_sensor_init init_db_def
        mock_monitor_def)
  have b: "is_connected (mon_sensor mock_monitor) None = False"
    by (simp add: is_connected_def mock_monitor_def mock_sensor_def)
  show ?thesis
    using load_config_falls_back [of "[''config.yaml'' \<mapsto> ''sensor: ['']" "''config.yaml''"
        "''sensor: [''" "\<lambda>text. Inl ValueError" ValueError emulation_hw "[]" None
        "\<lparr>dt_hour = 4, dt_iso = ''2024-05-01T04:00:00''\<rparr>"]
      load_config_falls_back [of Map.empty "''config.yaml''"
        "''sensor: [''" "\<lambda>text. Inl ValueError" ValueError emulation_hw "[]" None
        "\<lparr>dt_hour = 4, dt_iso = ''2024-05-01T04:00:00''\<rparr>"]
    by (auto simp: a b)
qed

section \<open>Properties of the background thread\<close>

text \<open>
  C8 (as amended). Every call of \<open>start\<close> sets the running flag and creates one more
  background thread, whatever the flag was: after two calls the monitor is running with
  two threads more than before, and nothing else has changed.
\<close>

theorem start_creates_thread:
  "running (start m) = True \<and> threads (start m) = threads m + 1 \<and>
   running (start (start m)) = True \<and> threads (start (start m)) = threads m + 2 \<and>
   start (start m) = (start m)\<lparr>threads := threads m + 2\<rparr> \<and>
   config (start m) = config m \<and> mon_sensor (start m) = mon_sensor m \<and> db (start m) = db m"
  by (simp add: start_def)

text \<open>
  The claim as stated makes the second call a no-op; on a stopped monitor the second
  call changes the state and leaves two threads.
\<close>

theorem start_twice_counterexample:
  "running mock_monitor = False \<and>
   threads (start mock_monitor) = 1 \<and> threads (start (start mock_monitor)) = 2 \<and>
   start (start mock_monitor) \<noteq> start mock_monitor"
  by (simp add: start_def mock_monitor_def)

text \<open>
  The thread hands the monitor back as it got it.
\<close>

lemma collection_loop_keeps_monitor: "snd (collection_loop iv m cycles) = m"
  by (induction cycles) (auto split: sum.splits)

lemma data_collection_thread_keeps_monitor: "snd (data_collection_thread m cycles) = m"
  by (simp add: data_collection_thread_def collection_loop_keeps_monitor split: sum.splits)

text \<open>
  C1. The background thread never writes to the table, however many passes it makes;
  on the monitor in emulation mode, started with an empty table, three passes in which
  the read succeeds leave the table empty, where the claim requires three appends.
\<close>

theorem data_collection_thread_never_appends:
  "db (snd (data_collection_thread m cycles)) = db m \<and>
   db (start mock_monitor) = [] \<and>
   read (mon_sensor (start mock_monitor)) (cycle_read night_cycle) = Some (read_mock night_env) \<and>
   data_collection_thread (start mock_monitor) [night_cycle, night_cycle, night_cycle] =
     (Looping, start mock_monitor)"
proof -
  have "read_interval_of (config (start mock_monitor)) = Inr (PInt 10)"
    by (simp add: read_interval_of_def start_def mock_monitor_def default_config_def)
  then have "data_collection_thread (start mock_monitor) [night_cycle, night_cycle, night_cycle] =
     (Looping, start mock_monitor)"
    by (simp add: data_collection_thread_def night_cycle_def)
  moreover have "read (mon_sensor (start mock_monitor)) (cycle_read night_cycle) =
      Some (read_mock night_env)"
    by (simp add: read_def start_def mock_monitor_def mock_sensor_def night_cycle_def)
  moreover have "db (start mock_monitor) = []"
    by (simp add: start_def mock_monitor_def)
  ultimately show ?thesis
    by (simp add: data_collection_thread_keeps_monitor)
qed

end
